theory Spec2Isabelle
  imports Complex_Main "HOL-Library.Multiset" "HOL-Library.Sublist" "HOL-Library.AList"
begin

section \<open>Python and pandas values\<close>

text \<open>
  The analysis scripts compute with Python floats and pandas Series. A float is modelled
  as a real number or NaN (\<open>None\<close>): rounding and infinities are not modelled, the
  missing value (NaN in a numeric column, NaT in a datetime column) is. Exceptions are
  values of \<open>py_error\<close>.
\<close>

type_synonym pyfloat = "real option"

abbreviation NaN :: pyfloat where
  "NaN \<equiv> None"

datatype py_error = ConfigLoadError | ZeroDivisionError | ValueError | KeyError

text \<open>Float subtraction and \<open>x / 1000.0\<close>: NaN propagates.\<close>

definition py_sub :: "pyfloat \<Rightarrow> pyfloat \<Rightarrow> pyfloat" where
  "py_sub a b = (case a of None \<Rightarrow> NaN | Some x \<Rightarrow> (case b of None \<Rightarrow> NaN | Some y \<Rightarrow> Some (x - y)))"

text \<open>
  \<open>a / b\<close> on Python floats: a zero divisor raises ZeroDivisionError, NaN propagates.
\<close>

definition py_truediv :: "pyfloat \<Rightarrow> pyfloat \<Rightarrow> py_error + pyfloat" where
  "py_truediv a b =
     (case b of
        None \<Rightarrow> Inr NaN
      | Some y \<Rightarrow>
          if y = 0 then Inl ZeroDivisionError
          else (case a of None \<Rightarrow> Inr NaN | Some x \<Rightarrow> Inr (Some (x / y))))"

text \<open>
  The builtin \<open>max(a, b)\<close> of two arguments keeps \<open>a\<close> unless \<open>b > a\<close>; every
  comparison with NaN is false, so \<open>max(nan, 1.0)\<close> is \<open>nan\<close>.
\<close>

definition py_max :: "pyfloat \<Rightarrow> pyfloat \<Rightarrow> pyfloat" where
  "py_max a b =
     (case a of
        None \<Rightarrow> NaN
      | Some x \<Rightarrow> (case b of None \<Rightarrow> Some x | Some y \<Rightarrow> if x < y then Some y else Some x))"

subsection \<open>Series reductions\<close>

text \<open>
  pandas reductions skip missing values (\<open>skipna=True\<close>) and return NaN when nothing is
  left; \<open>std\<close> uses \<open>ddof=1\<close> and is NaN below two values; \<open>quantile\<close> interpolates
  linearly between the two order statistics around position \<open>(n - 1) * q\<close>.
\<close>

fun dropna :: "pyfloat list \<Rightarrow> real list" where
  "dropna [] = []"
| "dropna (None # xs) = dropna xs"
| "dropna (Some x # xs) = x # dropna xs"

definition series_mean :: "pyfloat list \<Rightarrow> pyfloat" where
  "series_mean xs =
     (let vs = dropna xs
      in if vs = [] then NaN else Some (sum_list vs / real (length vs)))"

definition series_min :: "pyfloat list \<Rightarrow> pyfloat" where
  "series_min xs =
     (let vs = dropna xs in if vs = [] then NaN else Some (Min (set vs)))"

definition series_max :: "pyfloat list \<Rightarrow> pyfloat" where
  "series_max xs =
     (let vs = dropna xs in if vs = [] then NaN else Some (Max (set vs)))"

definition series_std :: "pyfloat list \<Rightarrow> pyfloat" where
  "series_std xs =
     (let vs = dropna xs; n = length vs
      in if n < 2 then NaN
         else let m = sum_list vs / real n
              in Some (sqrt (sum_list (map (\<lambda>v. (v - m)\<^sup>2) vs) / real (n - 1))))"

text \<open>
  The value of a sorted array at the virtual index \<open>h\<close>: the entry below, plus the
  fractional part of \<open>h\<close> times the step to the next entry (the last entry has no next).
\<close>

definition lerp_at :: "real list \<Rightarrow> real \<Rightarrow> real" where
  "lerp_at vs h =
     (let i = nat \<lfloor>h\<rfloor>;
          g = h - real i
      in vs ! i + g * (vs ! (min (i + 1) (length vs - 1)) - vs ! i))"

definition series_quantile :: "pyfloat list \<Rightarrow> real \<Rightarrow> pyfloat" where
  "series_quantile xs q =
     (let vs = sort (dropna xs); n = length vs
      in if n = 0 then NaN else Some (lerp_at vs (real (n - 1) * q)))"

section \<open>Request records and run metrics\<close>

text \<open>
  One line of a result file. \<open>timestamp\<close> and \<open>start_time\<close> are optional; a record
  without one has a missing value in that column of the DataFrame.
\<close>

record row =
  success :: bool
  duration_ms :: real
  timestamp :: pyfloat
  start_time :: pyfloat

text \<open>
  The DataFrame read from a result file. \<open>ts_column\<close> is \<open>None\<close> when the frame has no
  \<open>timestamp\<close> column; otherwise it says what the cells of the column are:
  pandas Timestamp objects (\<open>timestamp\<close> then holds what \<open>.timestamp()\<close> returns,
  POSIX seconds, and a missing cell is NaT) or plain numbers (a missing cell is NaN).
\<close>

datatype ts_kind = Datetime | Numeric

record dataframe =
  ts_column :: "ts_kind option"
  rows :: "row list"

record metrics_core =
  total_requests :: nat
  success_rate :: real
  avg_latency :: pyfloat
  min_latency :: pyfloat
  max_latency :: pyfloat
  std_latency :: pyfloat
  p95_latency :: pyfloat
  p99_latency :: pyfloat
  throughput :: pyfloat
  test_duration_s :: pyfloat

text \<open>
  The dictionary of \<open>dashboard_generator.py\<close> also carries the language label it was
  given (a string, or Python's \<open>None\<close>); the one of \<open>dashboard-generator.py\<close> has
  the ten numeric fields only.
\<close>

record run_metrics = metrics_core +
  language :: "string option"

section \<open>Configuration\<close>

text \<open>
  \<open>config.yaml\<close> as \<open>load_config\<close> finds it: absent, present but failing to open or
  parse, or parsed into a document (\<open>None\<close> for an empty document, otherwise a mapping
  of sections to mappings of numbers).
\<close>

type_synonym config = "(string \<times> (string \<times> real) list) list"

datatype config_file = NotFound | Unloadable | Parsed "config option"

definition dict_get :: "('k \<times> 'v) list \<Rightarrow> 'k \<Rightarrow> 'v \<Rightarrow> 'v" where
  "dict_get d k dflt = (case map_of d k of None \<Rightarrow> dflt | Some v \<Rightarrow> v)"

text \<open>\<open>dashboard_generator.py\<close>: only FileNotFoundError is caught.\<close>

fun load_config :: "config_file \<Rightarrow> py_error + config option" where
  "load_config NotFound = Inr None"
| "load_config Unloadable = Inl ConfigLoadError"
| "load_config (Parsed c) = Inr c"

text \<open>\<open>dashboard-generator.py\<close>: every exception is caught.\<close>

fun load_config_dash :: "config_file \<Rightarrow> py_error + config option" where
  "load_config_dash NotFound = Inr None"
| "load_config_dash Unloadable = Inr None"
| "load_config_dash (Parsed c) = Inr c"

text \<open>
  \<open>config.get('test', {}).get('duration_ms', 30000) if config else 30000\<close>, divided by
  \<open>1000.0\<close>: the nominal duration in seconds. An empty mapping is falsy.
\<close>

definition nominal_duration_s :: "config option \<Rightarrow> real" where
  "nominal_duration_s config =
     (let test_duration_ms =
            (case config of
               None \<Rightarrow> 30000
             | Some c \<Rightarrow>
                 if c \<noteq> [] then dict_get (dict_get c ''test'' []) ''duration_ms'' 30000
                 else 30000)
      in test_duration_ms / 1000)"

section \<open>The run metrics calculator\<close>

text \<open>
  Lines 141 to 146 of \<open>dashboard_generator.py\<close>: the first and last instant of the
  successful records, in milliseconds. In a datetime column every cell, NaT included, has
  a \<open>timestamp\<close> attribute, so the first branch is taken; \<open>min()\<close> and \<open>max()\<close> skip
  NaT and are NaT when nothing is left, and \<open>NaT.timestamp()\<close> raises ValueError. In a
  numeric column \<open>float(nan)\<close> is \<open>nan\<close>.
\<close>

definition timestamp_bounds :: "ts_kind \<Rightarrow> pyfloat list \<Rightarrow> py_error + (pyfloat \<times> pyfloat)" where
  "timestamp_bounds kind timestamps =
     (case kind of
        Datetime \<Rightarrow>
          (case series_min timestamps of
             None \<Rightarrow> Inl ValueError
           | Some lo \<Rightarrow>
               (case series_max timestamps of
                  None \<Rightarrow> Inl ValueError
                | Some hi \<Rightarrow> Inr (Some (lo * 1000), Some (hi * 1000))))
      | Numeric \<Rightarrow> Inr (series_min timestamps, series_max timestamps))"

text \<open>
  Lines 137 to 155: throughput and the duration it was computed over. The same lines,
  word for word, are lines 88 to 110 of \<open>dashboard-generator.py\<close>. Only the
  \<open>timestamp\<close> column is consulted; \<open>start_time\<close> is not read.
\<close>

definition throughput_and_duration ::
  "dataframe \<Rightarrow> row list \<Rightarrow> real \<Rightarrow> py_error + (pyfloat \<times> pyfloat)" where
  "throughput_and_duration df successful_df nominal_s =
     (let success_count = length successful_df in
      case ts_column df of
        Some kind \<Rightarrow>
          if length successful_df > 1 then
            (case timestamp_bounds kind (map timestamp successful_df) of
               Inl e \<Rightarrow> Inl e
             | Inr (start_ms, end_ms) \<Rightarrow>
                 let actual_duration_s =
                       py_max (map_option (\<lambda>d. d / 1000) (py_sub end_ms start_ms)) (Some 1)
                 in
                   (case py_truediv (Some (real success_count)) actual_duration_s of
                      Inl e \<Rightarrow> Inl e
                    | Inr tput \<Rightarrow> Inr (tput, actual_duration_s)))
          else
            (case py_truediv (Some (real success_count)) (Some nominal_s) of
               Inl e \<Rightarrow> Inl e
             | Inr tput \<Rightarrow> Inr (tput, Some nominal_s))
      | None \<Rightarrow>
          (case py_truediv (Some (real success_count)) (Some nominal_s) of
             Inl e \<Rightarrow> Inl e
           | Inr tput \<Rightarrow> Inr (tput, Some nominal_s)))"

text \<open>
  \<open>calculate_detailed_metrics\<close> of \<open>dashboard_generator.py\<close> (lines 107 to 172), the
  copy that the multi-run analyzer imports. \<open>None\<close> is Python's \<open>None\<close>.
\<close>

definition calculate_detailed_metrics ::
  "config_file \<Rightarrow> dataframe \<Rightarrow> string option \<Rightarrow> py_error + run_metrics option" where
  "calculate_detailed_metrics cf df lang =
     (if rows df = [] then Inr None
      else
        case load_config cf of
          Inl e \<Rightarrow> Inl e
        | Inr config \<Rightarrow>
            let nominal_s = nominal_duration_s config;
                n_total = length (rows df);
                successful_df = filter success (rows df);
                success_count = length successful_df;
                rate =
                  (if n_total > 0
                   then real success_count / real n_total * 100 else 0)
            in
              if successful_df = [] then
                Inr (Some \<lparr>total_requests = n_total, success_rate = 0,
                  avg_latency = Some 0, min_latency = Some 0, max_latency = Some 0,
                  std_latency = Some 0, p95_latency = Some 0, p99_latency = Some 0,
                  throughput = Some 0, test_duration_s = Some nominal_s,
                  language = lang\<rparr>)
              else
                case throughput_and_duration df successful_df nominal_s of
                  Inl e \<Rightarrow> Inl e
                | Inr (tput, final_test_duration_s) \<Rightarrow>
                    let latencies = map (\<lambda>r. Some (duration_ms r)) successful_df
                    in Inr (Some \<lparr>total_requests = n_total,
                         success_rate = rate,
                         avg_latency = series_mean latencies,
                         min_latency = series_min latencies,
                         max_latency = series_max latencies,
                         std_latency = series_std latencies,
                         p95_latency = series_quantile latencies (95 / 100),
                         p99_latency = series_quantile latencies (99 / 100),
                         throughput = tput,
                         test_duration_s = final_test_duration_s,
                         language = lang\<rparr>))"

text \<open>
  \<open>calculate_detailed_metrics\<close> of \<open>dashboard-generator.py\<close> (lines 59 to 126): no
  language parameter, no language key, and its own \<open>load_config\<close>.
\<close>

definition calculate_detailed_metrics_dash ::
  "config_file \<Rightarrow> dataframe \<Rightarrow> py_error + metrics_core option" where
  "calculate_detailed_metrics_dash cf df =
     (if rows df = [] then Inr None
      else
        case load_config_dash cf of
          Inl e \<Rightarrow> Inl e
        | Inr config \<Rightarrow>
            let nominal_s = nominal_duration_s config;
                n_total = length (rows df);
                successful_df = filter success (rows df);
                success_count = length successful_df;
                rate =
                  (if n_total > 0
                   then real success_count / real n_total * 100 else 0)
            in
              if successful_df = [] then
                Inr (Some \<lparr>total_requests = n_total, success_rate = 0,
                  avg_latency = Some 0, min_latency = Some 0, max_latency = Some 0,
                  std_latency = Some 0, p95_latency = Some 0, p99_latency = Some 0,
                  throughput = Some 0, test_duration_s = Some nominal_s\<rparr>)
              else
                case throughput_and_duration df successful_df nominal_s of
                  Inl e \<Rightarrow> Inl e
                | Inr (tput, final_test_duration_s) \<Rightarrow>
                    let latencies = map (\<lambda>r. Some (duration_ms r)) successful_df
                    in Inr (Some \<lparr>total_requests = n_total,
                         success_rate = rate,
                         avg_latency = series_mean latencies,
                         min_latency = series_min latencies,
                         max_latency = series_max latencies,
                         std_latency = series_std latencies,
                         p95_latency = series_quantile latencies (95 / 100),
                         p99_latency = series_quantile latencies (99 / 100),
                         throughput = tput,
                         test_duration_s = final_test_duration_s\<rparr>))"

section \<open>The result set resolver\<close>

text \<open>
  String helpers of \<open>auto_detect_result_files\<close>, for ASCII text: \<open>Path.stem\<close> cuts the
  last suffix, \<open>str.replace\<close> (with a pattern that is not empty) replaces every
  occurrence from the left, \<open>str.title\<close> capitalises each run of letters.
\<close>

definition stem :: "string \<Rightarrow> string" where
  "stem name =
     (if CHR ''.'' \<in> set name then rev (tl (dropWhile (\<lambda>c. c \<noteq> CHR ''.'') (rev name)))
      else name)"

fun replace :: "string \<Rightarrow> string \<Rightarrow> string \<Rightarrow> string" where
  "replace [] old new = []"
| "replace (c # cs) old new =
     (if old \<noteq> [] \<and> prefix old (c # cs)
      then new @ replace (drop (length old) (c # cs)) old new
      else c # replace cs old new)"

definition is_lower :: "char \<Rightarrow> bool" where
  "is_lower c = (97 \<le> (of_char c :: nat) \<and> (of_char c :: nat) \<le> 122)"

definition is_upper :: "char \<Rightarrow> bool" where
  "is_upper c = (65 \<le> (of_char c :: nat) \<and> (of_char c :: nat) \<le> 90)"

definition to_upper :: "char \<Rightarrow> char" where
  "to_upper c = (if is_lower c then char_of ((of_char c :: nat) - 32) else c)"

definition to_lower :: "char \<Rightarrow> char" where
  "to_lower c = (if is_upper c then char_of ((of_char c :: nat) + 32) else c)"

fun title_from :: "bool \<Rightarrow> string \<Rightarrow> string" where
  "title_from in_word [] = []"
| "title_from in_word (c # cs) =
     (if is_lower c \<or> is_upper c
      then (if in_word then to_lower c else to_upper c) # title_from True cs
      else c # title_from False cs)"

definition title :: "string \<Rightarrow> string" where
  "title s = title_from False s"

text \<open>
  A result file has a size and, when read with \<open>pd.read_json(lines=True)\<close>, a
  DataFrame. The \<open>raw\<close> directory of a run maps file names to files; a run directory
  \<open>run_N\<close> has its number and may lack the \<open>raw\<close> directory.
\<close>

record result_file =
  st_size :: nat
  content :: dataframe

type_synonym raw_dir = "string \<rightharpoonup> result_file"

record run_dir =
  run_number :: int
  raw :: "raw_dir option"

record file_info =
  path :: string
  sdk_type :: string
  file_language :: string
  display_name :: string

text \<open>\<open>file_path.exists() and os.path.getsize(file_path) > 0\<close>\<close>

definition present :: "raw_dir \<Rightarrow> string \<Rightarrow> bool" where
  "present raw_dir file_path =
     (case raw_dir file_path of None \<Rightarrow> False | Some f \<Rightarrow> st_size f > 0)"

definition patterns :: "(string \<times> string list) list" where
  "patterns =
     [(''java'', [''operational-java.jsonl'', ''enterprise-java.jsonl'']),
      (''go'', [''operational-go.jsonl'', ''enterprise-go.jsonl''])]"

definition legacy_patterns :: "string list" where
  "legacy_patterns = [''operational.jsonl'', ''enterprise.jsonl'']"

text \<open>
  The loop over \<open>patterns.items()\<close> (lines 71 to 88): the first language with any file
  found wins, with the files that were found. A dictionary is an association list in
  insertion order, and \<open>files[k] = v\<close> is \<open>AList.update\<close>.
\<close>

fun detect_language_files ::
  "raw_dir \<Rightarrow> (string \<times> string list) list \<Rightarrow> (string \<times> file_info) list \<times> string option" where
  "detect_language_files raw_dir [] = ([], None)"
| "detect_language_files raw_dir ((lang, file_patterns) # rest) =
     (let found_files = filter (present raw_dir) file_patterns
      in if found_files \<noteq> [] then
           (fold (\<lambda>file_path files.
                    let sdk = replace (stem file_path) (''-'' @ lang) []
                    in AList.update sdk
                         \<lparr>path = file_path, sdk_type = sdk, file_language = lang,
                          display_name = title sdk @ '' SDK''\<rparr> files)
              found_files [],
            Some lang)
         else detect_language_files raw_dir rest)"

text \<open>\<open>auto_detect_result_files\<close> (lines 55 to 105).\<close>

definition auto_detect_result_files ::
  "run_dir \<Rightarrow> (string \<times> file_info) list \<times> string option" where
  "auto_detect_result_files d =
     (case raw d of
        None \<Rightarrow> ([], None)
      | Some raw_dir \<Rightarrow>
          (case detect_language_files raw_dir patterns of
             (files, lang) \<Rightarrow>
               if files = [] then
                 (fold (\<lambda>pattern files.
                          if present raw_dir pattern then
                            let sdk = replace pattern ''.jsonl'' []
                            in AList.update sdk
                                 \<lparr>path = pattern, sdk_type = sdk, file_language = ''unknown'',
                                  display_name = title sdk @ '' SDK''\<rparr> files
                          else files)
                    legacy_patterns [],
                  Some ''unknown'')
               else (files, lang)))"

section \<open>The multi-run analyzer\<close>











section \<open>Example stores\<close>

text \<open>
  The scenarios of the specification and a few stores used to run the definitions:
  Scenario A (ten records, eight successful, no timestamps), Scenario B (three successful
  records with \<open>start_time\<close> only), Scenario D (five failed records), a store with numeric
  timestamps, and a store whose datetime column is filled only on a failed record.
\<close>

definition failed_row :: row where
  "failed_row = \<lparr>success = False, duration_ms = 0, timestamp = NaN, start_time = NaN\<rparr>"

definition scenario_A :: dataframe where
  "scenario_A = \<lparr>ts_column = None, rows =
     map (\<lambda>d. \<lparr>success = True, duration_ms = d, timestamp = NaN, start_time = NaN\<rparr>)
       [10, 12, 11, 13, 12, 14, 11, 100] @ [failed_row, failed_row]\<rparr>"


definition scenario_D :: dataframe where
  "scenario_D = \<lparr>ts_column = None, rows =
     [failed_row, failed_row, failed_row, failed_row, failed_row]\<rparr>"


definition untimed_successes :: dataframe where
  "untimed_successes = \<lparr>ts_column = Some Datetime, rows =
     [\<lparr>success = True, duration_ms = 10, timestamp = NaN, start_time = NaN\<rparr>,
      \<lparr>success = True, duration_ms = 12, timestamp = NaN, start_time = NaN\<rparr>,
      \<lparr>success = False, duration_ms = 5, timestamp = Some 1700000000, start_time = NaN\<rparr>]\<rparr>"



text \<open>Run directories: their \<open>raw\<close> directory and the result files in it.\<close>

definition data_file :: result_file where
  "data_file = \<lparr>st_size = 120, content = scenario_D\<rparr>"

definition partial_java_raw :: raw_dir where
  "partial_java_raw =
     [''operational-java.jsonl'' \<mapsto> data_file,
      ''operational-go.jsonl'' \<mapsto> data_file,
      ''enterprise-go.jsonl'' \<mapsto> data_file]"

definition partial_java_run :: run_dir where
  "partial_java_run = \<lparr>run_number = 1, raw = Some partial_java_raw\<rparr>"

definition empty_raw_run :: run_dir where
  "empty_raw_run = \<lparr>run_number = 2, raw = Some Map.empty\<rparr>"

definition go_raw :: raw_dir where
  "go_raw =
     [''operational-go.jsonl'' \<mapsto> data_file,
      ''enterprise-go.jsonl'' \<mapsto> data_file,
      ''operational.jsonl'' \<mapsto> data_file]"

definition go_run :: run_dir where
  "go_run = \<lparr>run_number = 3, raw = Some go_raw\<rparr>"

definition no_raw_run :: run_dir where
  "no_raw_run = \<lparr>run_number = 4, raw = None\<rparr>"


section \<open>Facts about the calculator\<close>

lemma dropna_map_Some: "dropna (map (\<lambda>r. Some (f r)) xs) = map f xs"
  by (induction xs) auto

lemma tad_fallback:
  assumes "ts_column df = None \<or> length successful_df \<le> 1" and "nominal_s \<noteq> 0"
  shows "throughput_and_duration df successful_df nominal_s =
           Inr (Some (real (length successful_df) / nominal_s), Some nominal_s)"
  using assms by (auto simp: throughput_and_duration_def py_truediv_def Let_def split: option.splits)

lemma tad_fallback_zero:
  assumes "ts_column df = None \<or> length successful_df \<le> 1" and "nominal_s = 0"
  shows "throughput_and_duration df successful_df nominal_s = Inl ZeroDivisionError"
  using assms by (auto simp: throughput_and_duration_def py_truediv_def Let_def split: option.splits)

lemma timestamp_bounds_present:
  assumes "dropna ts \<noteq> []"
  shows "timestamp_bounds kind ts =
           Inr (Some (Min (set (dropna ts)) * (case kind of Datetime \<Rightarrow> 1000 | Numeric \<Rightarrow> 1)),
                Some (Max (set (dropna ts)) * (case kind of Datetime \<Rightarrow> 1000 | Numeric \<Rightarrow> 1)))"
  using assms by (cases kind) (simp_all add: timestamp_bounds_def series_min_def series_max_def)

lemma clamp_duration:
  "py_max (map_option (\<lambda>d. d / 1000) (py_sub (Some (hi * c)) (Some (lo * c)))) (Some 1) =
     Some (max 1 ((hi - lo) * (c / 1000)))"
  by (simp add: py_max_def py_sub_def max_def algebra_simps diff_divide_distrib)

lemma truediv_clamped: "py_truediv (Some a) (Some (max 1 d)) = Inr (Some (a / max 1 d))"
proof -
  have "max 1 d \<noteq> 0" by (simp add: max_def)
  then show ?thesis by (simp add: py_truediv_def)
qed

lemma tad_timestamps:
  assumes "ts_column df = Some kind" and "1 < length successful_df"
    and "dropna (map timestamp successful_df) \<noteq> []"
  shows "throughput_and_duration df successful_df nominal_s =
           Inr (Some (real (length successful_df) /
                  max 1 ((Max (set (dropna (map timestamp successful_df))) -
                          Min (set (dropna (map timestamp successful_df)))) *
                         (case kind of Datetime \<Rightarrow> 1 | Numeric \<Rightarrow> 1 / 1000))),
                Some (max 1 ((Max (set (dropna (map timestamp successful_df))) -
                          Min (set (dropna (map timestamp successful_df)))) *
                         (case kind of Datetime \<Rightarrow> 1 | Numeric \<Rightarrow> 1 / 1000))))"
proof -
  have c: "(case kind of Datetime \<Rightarrow> 1000 | Numeric \<Rightarrow> 1) / (1000::real) =
           (case kind of Datetime \<Rightarrow> 1 | Numeric \<Rightarrow> 1 / 1000)"
    by (cases kind) simp_all
  show ?thesis
    unfolding throughput_and_duration_def Let_def
    by (simp only: assms(1,2) timestamp_bounds_present[OF assms(3)] clamp_duration truediv_clamped
          c option.case sum.case prod.case if_True)
qed

lemma tad_datetime_missing:
  assumes "ts_column df = Some Datetime" and "1 < length successful_df"
    and "dropna (map timestamp successful_df) = []"
  shows "throughput_and_duration df successful_df nominal_s = Inl ValueError"
  using assms
  by (simp add: throughput_and_duration_def timestamp_bounds_def series_min_def)

lemma tad_numeric_missing:
  assumes "ts_column df = Some Numeric" and "1 < length successful_df"
    and "dropna (map timestamp successful_df) = []"
  shows "throughput_and_duration df successful_df nominal_s = Inr (NaN, NaN)"
  using assms
  by (simp add: throughput_and_duration_def timestamp_bounds_def series_min_def series_max_def
      py_sub_def py_max_def py_truediv_def)

lemma cdm_zero_success:
  "rows df \<noteq> [] \<Longrightarrow> load_config cf = Inr config \<Longrightarrow> filter success (rows df) = [] \<Longrightarrow>
   calculate_detailed_metrics cf df lang =
     Inr (Some \<lparr>total_requests = length (rows df), success_rate = 0,
        avg_latency = Some 0, min_latency = Some 0, max_latency = Some 0,
        std_latency = Some 0, p95_latency = Some 0, p99_latency = Some 0,
        throughput = Some 0, test_duration_s = Some (nominal_duration_s config),
        language = lang\<rparr>)"
  by (simp add: calculate_detailed_metrics_def Let_def)

lemma cdm_absent_iff: "calculate_detailed_metrics cf df lang = Inr None \<longleftrightarrow> rows df = []"
  by (auto simp: calculate_detailed_metrics_def Let_def split: sum.splits prod.splits)

lemma cdm_successes:
  assumes "load_config cf = Inr config" and "filter success (rows df) \<noteq> []"
    and "throughput_and_duration df (filter success (rows df)) (nominal_duration_s config) = Inr (tput, dur)"
  shows "calculate_detailed_metrics cf df lang =
     Inr (Some \<lparr>total_requests = length (rows df),
        success_rate = real (length (filter success (rows df))) / real (length (rows df)) * 100,
        avg_latency = series_mean (map (\<lambda>r. Some (duration_ms r)) (filter success (rows df))),
        min_latency = series_min (map (\<lambda>r. Some (duration_ms r)) (filter success (rows df))),
        max_latency = series_max (map (\<lambda>r. Some (duration_ms r)) (filter success (rows df))),
        std_latency = series_std (map (\<lambda>r. Some (duration_ms r)) (filter success (rows df))),
        p95_latency = series_quantile (map (\<lambda>r. Some (duration_ms r)) (filter success (rows df))) (95 / 100),
        p99_latency = series_quantile (map (\<lambda>r. Some (duration_ms r)) (filter success (rows df))) (99 / 100),
        throughput = tput, test_duration_s = dur, language = lang\<rparr>)"
proof -
  from assms(2) have "rows df \<noteq> []" by auto
  then show ?thesis using assms by (simp add: calculate_detailed_metrics_def Let_def)
qed

lemma cdm_Some_cases:
  assumes "calculate_detailed_metrics cf df lang = Inr (Some m)"
    and "filter success (rows df) \<noteq> []"
  obtains config tput dur where "load_config cf = Inr config"
    and "throughput_and_duration df (filter success (rows df)) (nominal_duration_s config) = Inr (tput, dur)"
proof -
  from assms(2) have ne: "rows df \<noteq> []" by auto
  obtain config where c: "load_config cf = Inr config"
    using assms(1) ne by (cases "load_config cf") (auto simp: calculate_detailed_metrics_def)
  obtain tput dur where
    "throughput_and_duration df (filter success (rows df)) (nominal_duration_s config) = Inr (tput, dur)"
    using assms ne c
    by (cases "throughput_and_duration df (filter success (rows df)) (nominal_duration_s config)")
       (auto simp: calculate_detailed_metrics_def Let_def)
  with c that show thesis by blast
qed




lemma nominal_default: "nominal_duration_s None = 30"
  by (simp add: nominal_duration_s_def)

subsection \<open>Means and quantiles of a list\<close>

lemma sum_list_lower: "(\<forall>x \<in> set xs. a \<le> x) \<Longrightarrow> a * real (length xs) \<le> sum_list xs"
  for a :: real
  by (induction xs) (auto simp: algebra_simps)

lemma sum_list_upper: "(\<forall>x \<in> set xs. x \<le> b) \<Longrightarrow> sum_list xs \<le> b * real (length xs)"
  for b :: real
  by (induction xs) (auto simp: algebra_simps)

lemma mean_between:
  fixes xs :: "real list"
  assumes "xs \<noteq> []"
  shows "Min (set xs) \<le> sum_list xs / real (length xs)"
    and "sum_list xs / real (length xs) \<le> Max (set xs)"
proof -
  have n: "0 < real (length xs)" using assms by simp
  have "Min (set xs) * real (length xs) \<le> sum_list xs"
    by (rule sum_list_lower) simp
  then show "Min (set xs) \<le> sum_list xs / real (length xs)"
    using n by (simp add: pos_le_divide_eq)
  have "sum_list xs \<le> Max (set xs) * real (length xs)"
    by (rule sum_list_upper) simp
  then show "sum_list xs / real (length xs) \<le> Max (set xs)"
    using n by (simp add: pos_divide_le_eq)
qed

lemma lerp_at_between:
  assumes "sorted vs" and "vs \<noteq> []" and "0 \<le> h" and "h \<le> real (length vs - 1)"
  shows "vs ! nat \<lfloor>h\<rfloor> \<le> lerp_at vs h"
    and "lerp_at vs h \<le> vs ! min (nat \<lfloor>h\<rfloor> + 1) (length vs - 1)"
    and "nat \<lfloor>h\<rfloor> \<le> length vs - 1"
proof -
  define i where "i = nat \<lfloor>h\<rfloor>"
  define j where "j = min (i + 1) (length vs - 1)"
  define g where "g = h - real i"
  have ih: "real i \<le> h" and hi: "h < real i + 1"
    using assms(3) unfolding i_def by linarith+
  have i_le: "i \<le> length vs - 1"
    using ih assms(4) by linarith
  then show "nat \<lfloor>h\<rfloor> \<le> length vs - 1" by (simp add: i_def)
  have ij: "i \<le> j" using i_le by (simp add: j_def)
  have j_lt: "j < length vs" using assms(2) by (cases vs) (simp_all add: j_def)
  have d: "vs ! i \<le> vs ! j"
    using assms(1) ij j_lt by (rule sorted_nth_mono)
  have g0: "0 \<le> g" and g1: "g \<le> 1" using ih hi by (simp_all add: g_def)
  have l: "lerp_at vs h = vs ! i + g * (vs ! j - vs ! i)"
    by (simp add: lerp_at_def Let_def i_def j_def g_def)
  have "0 \<le> g * (vs ! j - vs ! i)" using g0 d by simp
  then show "vs ! nat \<lfloor>h\<rfloor> \<le> lerp_at vs h" unfolding l by (simp add: i_def)
  have "g * (vs ! j - vs ! i) \<le> 1 * (vs ! j - vs ! i)"
    using g1 d by (intro mult_right_mono) simp_all
  then show "lerp_at vs h \<le> vs ! min (nat \<lfloor>h\<rfloor> + 1) (length vs - 1)"
    unfolding l by (simp add: i_def j_def)
qed

lemma lerp_at_mono:
  assumes "sorted vs" and "vs \<noteq> []" and "0 \<le> h1" and "h1 \<le> h2"
    and "h2 \<le> real (length vs - 1)"
  shows "lerp_at vs h1 \<le> lerp_at vs h2"
proof -
  define i1 where "i1 = nat \<lfloor>h1\<rfloor>"
  define i2 where "i2 = nat \<lfloor>h2\<rfloor>"
  have h2: "0 \<le> h2" and h1: "h1 \<le> real (length vs - 1)" using assms by linarith+
  have le: "i1 \<le> i2" unfolding i1_def i2_def using assms(4) by (simp add: floor_mono nat_mono)
  have i2_le: "i2 \<le> length vs - 1"
    unfolding i2_def using lerp_at_between(3)[OF assms(1,2) h2 assms(5)] .
  show ?thesis
  proof (cases "i1 = i2")
    case True
    define j where "j = min (i1 + 1) (length vs - 1)"
    have j_lt: "j < length vs" using assms(2) by (cases vs) (simp_all add: j_def)
    have ij: "i1 \<le> j" using i2_le True by (simp add: j_def)
    have d: "0 \<le> vs ! j - vs ! i1"
      using sorted_nth_mono[OF assms(1) ij j_lt] by simp
    have "(h1 - real i1) * (vs ! j - vs ! i1) \<le> (h2 - real i1) * (vs ! j - vs ! i1)"
      using assms(4) d by (intro mult_right_mono) simp_all
    then show ?thesis
      using True by (simp add: lerp_at_def Let_def i1_def[symmetric] i2_def[symmetric] j_def)
  next
    case False
    with le have lt: "i1 + 1 \<le> i2" by simp
    then have m: "min (i1 + 1) (length vs - 1) = i1 + 1" using i2_le by simp
    have i2_lt: "i2 < length vs" using i2_le assms(2)
      by (metis One_nat_def Suc_pred length_greater_0_conv less_Suc_eq_le)
    have "lerp_at vs h1 \<le> vs ! (i1 + 1)"
      using lerp_at_between(2)[OF assms(1,2,3) h1] m by (simp add: i1_def)
    also have "\<dots> \<le> vs ! i2"
      using assms(1) lt i2_lt by (rule sorted_nth_mono)
    also have "\<dots> \<le> lerp_at vs h2"
      using lerp_at_between(1)[OF assms(1,2) h2 assms(5)] by (simp add: i2_def)
    finally show ?thesis .
  qed
qed

lemma nth_between_Min_Max:
  fixes vs :: "real list"
  assumes "k < length vs"
  shows "Min (set vs) \<le> vs ! k" and "vs ! k \<le> Max (set vs)"
  using assms by simp_all

lemma quantile_facts:
  fixes ds :: "real list"
  assumes "ds \<noteq> []" and "0 \<le> q" and "q \<le> q'" and "q' \<le> 1"
  shows "Min (set ds) \<le> lerp_at (sort ds) (real (length ds - 1) * q)"
    and "lerp_at (sort ds) (real (length ds - 1) * q) \<le> lerp_at (sort ds) (real (length ds - 1) * q')"
    and "lerp_at (sort ds) (real (length ds - 1) * q') \<le> Max (set ds)"
proof -
  let ?s = "sort ds" and ?n = "length ds"
  have "length ?s = ?n" by simp
  with assms(1) have "?s \<noteq> []" by (metis length_0_conv)
  then have s: "sorted ?s" "?s \<noteq> []" "length ?s = ?n" "set ?s = set ds"
    by simp_all
  have q0: "0 \<le> real (?n - 1) * q" using assms(2) by simp
  have qq: "real (?n - 1) * q \<le> real (?n - 1) * q'"
    using assms(3) by (intro mult_left_mono) simp_all
  have q1: "real (?n - 1) * q' \<le> real (length ?s - 1)"
    using assms(4) by (simp add: mult_left_le)
  have q0': "0 \<le> real (?n - 1) * q'" using q0 qq by linarith
  have q1': "real (?n - 1) * q \<le> real (length ?s - 1)" using qq q1 by linarith
  have k: "nat \<lfloor>real (?n - 1) * q\<rfloor> < length ?s"
    using lerp_at_between(3)[OF s(1,2) q0 q1'] s(2)
    by (metis One_nat_def Suc_pred length_greater_0_conv less_Suc_eq_le)
  have "Min (set ?s) \<le> ?s ! nat \<lfloor>real (?n - 1) * q\<rfloor>"
    using k by (rule nth_between_Min_Max(1))
  also have "\<dots> \<le> lerp_at ?s (real (?n - 1) * q)"
    by (rule lerp_at_between(1)[OF s(1,2) q0 q1'])
  finally show "Min (set ds) \<le> lerp_at ?s (real (?n - 1) * q)" by (simp only: s(4))
  show "lerp_at ?s (real (?n - 1) * q) \<le> lerp_at ?s (real (?n - 1) * q')"
    by (rule lerp_at_mono[OF s(1,2) q0 qq q1])
  have j: "min (nat \<lfloor>real (?n - 1) * q'\<rfloor> + 1) (length ?s - 1) < length ?s"
    using assms(1) by (cases ds) simp_all
  have "lerp_at ?s (real (?n - 1) * q') \<le> ?s ! min (nat \<lfloor>real (?n - 1) * q'\<rfloor> + 1) (length ?s - 1)"
    by (rule lerp_at_between(2)[OF s(1,2) q0' q1])
  also have "\<dots> \<le> Max (set ?s)" using j by (rule nth_between_Min_Max(2))
  finally show "lerp_at ?s (real (?n - 1) * q') \<le> Max (set ds)" by (simp only: s(4))
qed

section \<open>Duration inference\<close>





section \<open>Stores without a successful record\<close>



section \<open>Exceptions of the calculator\<close>

text \<open>
  Claim C3 says that the calculator never raises. It does on a store whose datetime
  \<open>timestamp\<close> column is empty on the successful records (two of them here, the only
  timestamp sits on a failed record): \<open>min()\<close> is NaT and \<open>NaT.timestamp()\<close> raises
  ValueError. It also does, for any store with records, when \<open>config.yaml\<close> exists but
  cannot be loaded.
\<close>

theorem calculator_raises:
  "calculate_detailed_metrics NotFound untimed_successes (Some ''go'') = Inl ValueError \<and>
   calculate_detailed_metrics Unloadable scenario_D (Some ''go'') = Inl ConfigLoadError"
  by (simp add: calculate_detailed_metrics_def untimed_successes_def scenario_D_def
        throughput_and_duration_def timestamp_bounds_def series_min_def failed_row_def)

text \<open>
  Outside those cases the calculator returns, and the result is absent exactly for the
  store without records.
\<close>

lemma cdm_total:
  assumes "load_config cf = Inr config" and "nominal_duration_s config \<noteq> 0"
    and "ts_column df = Some Datetime \<longrightarrow> length (filter success (rows df)) \<le> 1 \<or>
         dropna (map timestamp (filter success (rows df))) \<noteq> []"
  shows "\<exists>r. calculate_detailed_metrics cf df lang = Inr r \<and> (r = None \<longleftrightarrow> rows df = [])"
proof (cases "rows df = []")
  case True
  then show ?thesis by (simp add: calculate_detailed_metrics_def)
next
  case ne: False
  show ?thesis
  proof (cases "filter success (rows df) = []")
    case True
    from cdm_zero_success[OF ne assms(1) True] ne show ?thesis by simp
  next
    case s: False
    have "\<exists>t d. throughput_and_duration df (filter success (rows df)) (nominal_duration_s config) = Inr (t, d)"
    proof (cases "ts_column df = None \<or> length (filter success (rows df)) \<le> 1")
      case True
      from tad_fallback[OF True assms(2)] show ?thesis by blast
    next
      case False
      then obtain kind where k: "ts_column df = Some kind" and l: "1 < length (filter success (rows df))"
        by auto
      show ?thesis
      proof (cases "dropna (map timestamp (filter success (rows df))) = []")
        case True
        with assms(3) k l have "kind = Numeric" by (cases kind) auto
        with tad_numeric_missing[OF _ l True] k show ?thesis by blast
      next
        case False
        from tad_timestamps[OF k l False] show ?thesis by blast
      qed
    qed
    then obtain t d where "throughput_and_duration df (filter success (rows df)) (nominal_duration_s config) = Inr (t, d)"
      by blast
    from cdm_successes[OF assms(1) s this] ne show ?thesis by simp
  qed
qed

section \<open>The two copies of the calculator\<close>

lemma truncate_run_metrics:
  "metrics_core.truncate \<lparr>total_requests = a, success_rate = b, avg_latency = c, min_latency = d,
      max_latency = e, std_latency = f, p95_latency = g, p99_latency = h, throughput = i,
      test_duration_s = j, language = l\<rparr> =
   \<lparr>total_requests = a, success_rate = b, avg_latency = c, min_latency = d,
      max_latency = e, std_latency = f, p95_latency = g, p99_latency = h, throughput = i,
      test_duration_s = j\<rparr>"
  by (simp add: metrics_core.truncate_def)

text \<open>
  The copies agree on the ten numeric fields whenever their \<open>load_config\<close> agree, and
  on every store without records.
\<close>

lemma copies_agree:
  assumes "load_config cf = load_config_dash cf \<or> rows df = []"
  shows "calculate_detailed_metrics_dash cf df =
           map_sum id (map_option metrics_core.truncate) (calculate_detailed_metrics cf df lang)"
  using assms
  by (auto simp: calculate_detailed_metrics_def calculate_detailed_metrics_dash_def Let_def
        truncate_run_metrics split: sum.splits prod.splits)

text \<open>
  Claim C10 says that the two copies return equal numeric fields for every DataFrame and
  configuration. With a \<open>config.yaml\<close> that exists but cannot be loaded, the copy of
  \<open>dashboard_generator.py\<close> raises on Scenario D and the copy of
  \<open>dashboard-generator.py\<close> returns metrics with the default 30 seconds.
\<close>

theorem copies_differ_on_unloadable_config:
  "calculate_detailed_metrics Unloadable scenario_D (Some ''go'') = Inl ConfigLoadError \<and>
   calculate_detailed_metrics_dash Unloadable scenario_D =
     Inr (Some \<lparr>total_requests = 5, success_rate = 0,
        avg_latency = Some 0, min_latency = Some 0, max_latency = Some 0,
        std_latency = Some 0, p95_latency = Some 0, p99_latency = Some 0,
        throughput = Some 0, test_duration_s = Some 30\<rparr>)"
  by (simp add: calculate_detailed_metrics_def calculate_detailed_metrics_dash_def
        scenario_D_def failed_row_def nominal_default)

section \<open>Latency statistics\<close>

lemma cdm_Some_record:
  assumes "calculate_detailed_metrics cf df lang = Inr (Some m)"
    and "filter success (rows df) \<noteq> []"
  shows "\<exists>tput dur. m =
     \<lparr>total_requests = length (rows df),
        success_rate = real (length (filter success (rows df))) / real (length (rows df)) * 100,
        avg_latency = series_mean (map (\<lambda>r. Some (duration_ms r)) (filter success (rows df))),
        min_latency = series_min (map (\<lambda>r. Some (duration_ms r)) (filter success (rows df))),
        max_latency = series_max (map (\<lambda>r. Some (duration_ms r)) (filter success (rows df))),
        std_latency = series_std (map (\<lambda>r. Some (duration_ms r)) (filter success (rows df))),
        p95_latency = series_quantile (map (\<lambda>r. Some (duration_ms r)) (filter success (rows df))) (95 / 100),
        p99_latency = series_quantile (map (\<lambda>r. Some (duration_ms r)) (filter success (rows df))) (99 / 100),
        throughput = tput, test_duration_s = dur, language = lang\<rparr>"
proof -
  from assms obtain config tput dur where c: "load_config cf = Inr config"
    and t: "throughput_and_duration df (filter success (rows df)) (nominal_duration_s config) = Inr (tput, dur)"
    by (rule cdm_Some_cases)
  from cdm_successes[OF c assms(2) t, of lang] assms(1) show ?thesis by auto
qed

lemma series_of_values:
  assumes "ds \<noteq> []"
  shows "series_mean (map Some ds) = Some (sum_list ds / real (length ds))"
    and "series_min (map Some ds) = Some (Min (set ds))"
    and "series_max (map Some ds) = Some (Max (set ds))"
    and "series_quantile (map Some ds) q = Some (lerp_at (sort ds) (real (length ds - 1) * q))"
    and "series_std (map Some ds) =
           (if length ds < 2 then NaN
            else Some (sqrt ((\<Sum>d\<leftarrow>ds. (d - sum_list ds / real (length ds))\<^sup>2) / real (length ds - 1))))"
proof -
  have d: "dropna (map Some ds) = ds"
    using dropna_map_Some[of "\<lambda>x. x" ds] by simp
  have s: "sort ds \<noteq> []"
    using assms by (metis length_0_conv length_sort)
  show "series_mean (map Some ds) = Some (sum_list ds / real (length ds))"
    using assms by (simp add: series_mean_def d)
  show "series_min (map Some ds) = Some (Min (set ds))"
    using assms by (simp add: series_min_def d)
  show "series_max (map Some ds) = Some (Max (set ds))"
    using assms by (simp add: series_max_def d)
  show "series_quantile (map Some ds) q = Some (lerp_at (sort ds) (real (length ds - 1) * q))"
    using s by (simp add: series_quantile_def d Let_def)
  show "series_std (map Some ds) =
           (if length ds < 2 then NaN
            else Some (sqrt ((\<Sum>d\<leftarrow>ds. (d - sum_list ds / real (length ds))\<^sup>2) / real (length ds - 1))))"
    by (simp add: series_std_def d Let_def)
qed

lemma lerp_at_weights:
  "lerp_at vs h =
     (1 - (h - real (nat \<lfloor>h\<rfloor>))) * vs ! nat \<lfloor>h\<rfloor> +
     (h - real (nat \<lfloor>h\<rfloor>)) * vs ! min (nat \<lfloor>h\<rfloor> + 1) (length vs - 1)"
  by (simp add: lerp_at_def Let_def algebra_simps)

lemma latencies_as_values:
  "map (\<lambda>r. Some (duration_ms r)) xs = map Some (map duration_ms xs)"
  by simp

lemma scenario_A_metrics:
  "\<exists>m. calculate_detailed_metrics NotFound scenario_A (Some ''go'') = Inr (Some m) \<and>
       total_requests m = 10 \<and> success_rate m = 80 \<and> throughput m = Some (8 / 30) \<and>
       avg_latency m = Some (22875 / 1000) \<and> max_latency m = Some 100"
  by (simp add: scenario_A_def failed_row_def calculate_detailed_metrics_def
        throughput_and_duration_def nominal_duration_s_def py_truediv_def series_mean_def
        series_max_def Let_def)

text \<open>
  Claim C4. When the calculator returns metrics for a store with a successful record,
  the latency statistics are those of the successful records' \<open>duration_ms\<close>: their
  arithmetic mean, least and greatest value; a standard deviation that is NaN for a
  single value and otherwise the non-negative number whose square times \<open>N - 1\<close> is the
  sum of squared deviations from the mean; and quantiles that weigh the two order
  statistics around position \<open>(N - 1) q\<close> by the fractional part of the position. On
  Scenario A the result has 10 requests, success rate 80, throughput 8/30, average
  latency 22.875 and maximal latency 100.
\<close>

theorem latency_statistics:
  "(calculate_detailed_metrics cf df lang = Inr (Some m) \<and> filter success (rows df) \<noteq> [] \<longrightarrow>
      (let ds = map duration_ms (filter success (rows df));
           n = length ds;
           s = sort ds;
           mean = sum_list ds / real n;
           h95 = real (n - 1) * (95 / 100);
           h99 = real (n - 1) * (99 / 100)
       in avg_latency m = Some mean \<and>
          min_latency m = Some (Min (set ds)) \<and>
          max_latency m = Some (Max (set ds)) \<and>
          (n = 1 \<longrightarrow> std_latency m = NaN) \<and>
          (2 \<le> n \<longrightarrow>
             (\<exists>sd. std_latency m = Some sd \<and> 0 \<le> sd \<and>
                   sd\<^sup>2 * real (n - 1) = (\<Sum>d\<leftarrow>ds. (d - mean)\<^sup>2))) \<and>
          p95_latency m =
            Some ((1 - (h95 - real (nat \<lfloor>h95\<rfloor>))) * s ! nat \<lfloor>h95\<rfloor> +
                  (h95 - real (nat \<lfloor>h95\<rfloor>)) * s ! min (nat \<lfloor>h95\<rfloor> + 1) (n - 1)) \<and>
          p99_latency m =
            Some ((1 - (h99 - real (nat \<lfloor>h99\<rfloor>))) * s ! nat \<lfloor>h99\<rfloor> +
                  (h99 - real (nat \<lfloor>h99\<rfloor>)) * s ! min (nat \<lfloor>h99\<rfloor> + 1) (n - 1)))) \<and>
   (\<exists>m. calculate_detailed_metrics NotFound scenario_A (Some ''go'') = Inr (Some m) \<and>
       total_requests m = 10 \<and> success_rate m = 80 \<and> throughput m = Some (8 / 30) \<and>
       avg_latency m = Some (22875 / 1000) \<and> max_latency m = Some 100)"
proof (intro conjI impI)
  assume a: "calculate_detailed_metrics cf df lang = Inr (Some m) \<and> filter success (rows df) \<noteq> []"
  define ds where "ds = map duration_ms (filter success (rows df))"
  have ne: "ds \<noteq> []" using a by (simp add: ds_def)
  from a obtain tput dur where m: "m =
     \<lparr>total_requests = length (rows df),
        success_rate = real (length (filter success (rows df))) / real (length (rows df)) * 100,
        avg_latency = series_mean (map Some ds),
        min_latency = series_min (map Some ds),
        max_latency = series_max (map Some ds),
        std_latency = series_std (map Some ds),
        p95_latency = series_quantile (map Some ds) (95 / 100),
        p99_latency = series_quantile (map Some ds) (99 / 100),
        throughput = tput, test_duration_s = dur, language = lang\<rparr>"
    using cdm_Some_record[of cf df lang m] unfolding latencies_as_values ds_def by blast
  define var where "var = (\<Sum>d\<leftarrow>ds. (d - sum_list ds / real (length ds))\<^sup>2) / real (length ds - 1)"
  have var0: "0 \<le> var"
    unfolding var_def by (intro divide_nonneg_nonneg sum_list_nonneg) auto
  have std: "2 \<le> length ds \<longrightarrow>
      (\<exists>sd. std_latency m = Some sd \<and> 0 \<le> sd \<and>
            sd\<^sup>2 * real (length ds - 1) = (\<Sum>d\<leftarrow>ds. (d - sum_list ds / real (length ds))\<^sup>2))"
  proof
    assume n: "2 \<le> length ds"
    then have "std_latency m = Some (sqrt var)"
      by (simp add: m series_of_values(5)[OF ne] var_def)
    moreover have "(sqrt var)\<^sup>2 * real (length ds - 1) =
        (\<Sum>d\<leftarrow>ds. (d - sum_list ds / real (length ds))\<^sup>2)"
      using var0 n by (simp add: var_def)
    ultimately show "\<exists>sd. std_latency m = Some sd \<and> 0 \<le> sd \<and>
            sd\<^sup>2 * real (length ds - 1) = (\<Sum>d\<leftarrow>ds. (d - sum_list ds / real (length ds))\<^sup>2)"
      using var0 by auto
  qed
  have one: "length ds = 1 \<longrightarrow> std_latency m = NaN"
    by (simp add: m series_of_values(5)[OF ne])
  show "let ds = map duration_ms (filter success (rows df));
           n = length ds;
           s = sort ds;
           mean = sum_list ds / real n;
           h95 = real (n - 1) * (95 / 100);
           h99 = real (n - 1) * (99 / 100)
       in avg_latency m = Some mean \<and>
          min_latency m = Some (Min (set ds)) \<and>
          max_latency m = Some (Max (set ds)) \<and>
          (n = 1 \<longrightarrow> std_latency m = NaN) \<and>
          (2 \<le> n \<longrightarrow>
             (\<exists>sd. std_latency m = Some sd \<and> 0 \<le> sd \<and>
                   sd\<^sup>2 * real (n - 1) = (\<Sum>d\<leftarrow>ds. (d - mean)\<^sup>2))) \<and>
          p95_latency m =
            Some ((1 - (h95 - real (nat \<lfloor>h95\<rfloor>))) * s ! nat \<lfloor>h95\<rfloor> +
                  (h95 - real (nat \<lfloor>h95\<rfloor>)) * s ! min (nat \<lfloor>h95\<rfloor> + 1) (n - 1)) \<and>
          p99_latency m =
            Some ((1 - (h99 - real (nat \<lfloor>h99\<rfloor>))) * s ! nat \<lfloor>h99\<rfloor> +
                  (h99 - real (nat \<lfloor>h99\<rfloor>)) * s ! min (nat \<lfloor>h99\<rfloor> + 1) (n - 1))"
    unfolding Let_def ds_def[symmetric]
    using std one
    by (simp add: m series_of_values(1-4)[OF ne] lerp_at_weights)
next
  show "\<exists>m. calculate_detailed_metrics NotFound scenario_A (Some ''go'') = Inr (Some m) \<and>
       total_requests m = 10 \<and> success_rate m = 80 \<and> throughput m = Some (8 / 30) \<and>
       avg_latency m = Some (22875 / 1000) \<and> max_latency m = Some 100"
    by (rule scenario_A_metrics)
qed


text \<open>
  On Scenario A the general statement gives the mean 22.875, the bounds 10 and 100, and
  the quantiles 69.9 and 93.98 (between the order statistics 14 and 100).
\<close>

theorem latency_statistics_witness:
  "\<exists>m. calculate_detailed_metrics NotFound scenario_A (Some ''go'') = Inr (Some m) \<and>
       filter success (rows scenario_A) \<noteq> [] \<and>
       avg_latency m = Some (183 / 8) \<and> min_latency m = Some 10 \<and> max_latency m = Some 100 \<and>
       p95_latency m = Some (699 / 10) \<and> p99_latency m = Some (4699 / 50)"
proof -
  obtain m where m: "calculate_detailed_metrics NotFound scenario_A (Some ''go'') = Inr (Some m)"
    using scenario_A_metrics by blast
  have s: "filter success (rows scenario_A) \<noteq> []"
    by (simp add: scenario_A_def failed_row_def)
  have "avg_latency m = Some (183 / 8) \<and> min_latency m = Some 10 \<and> max_latency m = Some 100 \<and>
       p95_latency m = Some (699 / 10) \<and> p99_latency m = Some (4699 / 50)"
    using latency_statistics[of NotFound scenario_A "Some ''go''" m] m s
    by (simp add: scenario_A_def failed_row_def Let_def)
  with m s show ?thesis by blast
qed

text \<open>
  Claim C5. For every RunMetrics that the calculator returns the success rate lies
  between 0 and 100; when the store has a successful record, the least latency, the
  average, the two quantiles and the greatest latency are defined and ordered:
  \<open>min \<le> avg \<le> max\<close> and \<open>min \<le> p95 \<le> p99 \<le> max\<close>.
\<close>

theorem metric_ordering:
  assumes "calculate_detailed_metrics cf df lang = Inr (Some m)"
  shows "0 \<le> success_rate m \<and> success_rate m \<le> 100 \<and>
         (filter success (rows df) \<noteq> [] \<longrightarrow>
            (\<exists>lo avg hi p95 p99.
               min_latency m = Some lo \<and> avg_latency m = Some avg \<and> max_latency m = Some hi \<and>
               p95_latency m = Some p95 \<and> p99_latency m = Some p99 \<and>
               lo \<le> avg \<and> avg \<le> hi \<and> lo \<le> p95 \<and> p95 \<le> p99 \<and> p99 \<le> hi))"
proof (cases "filter success (rows df) = []")
  case True
  have ne: "rows df \<noteq> []"
    using assms cdm_absent_iff[of cf df lang] by (auto simp: calculate_detailed_metrics_def)
  obtain config where c: "load_config cf = Inr config"
    using assms ne by (cases "load_config cf") (auto simp: calculate_detailed_metrics_def)
  from cdm_zero_success[OF ne c True, of lang] assms have "success_rate m = 0" by auto
  with True show ?thesis by simp
next
  case False
  define ds where "ds = map duration_ms (filter success (rows df))"
  have ne: "ds \<noteq> []" using False by (simp add: ds_def)
  from assms False obtain tput dur where m: "m =
     \<lparr>total_requests = length (rows df),
        success_rate = real (length (filter success (rows df))) / real (length (rows df)) * 100,
        avg_latency = series_mean (map Some ds),
        min_latency = series_min (map Some ds),
        max_latency = series_max (map Some ds),
        std_latency = series_std (map Some ds),
        p95_latency = series_quantile (map Some ds) (95 / 100),
        p99_latency = series_quantile (map Some ds) (99 / 100),
        throughput = tput, test_duration_s = dur, language = lang\<rparr>"
    using cdm_Some_record[of cf df lang m] unfolding latencies_as_values ds_def by blast
  have pos: "0 < real (length (rows df))" using False by (cases "rows df") auto
  have le: "real (length (filter success (rows df))) \<le> real (length (rows df))"
    by simp
  have r0: "0 \<le> success_rate m" by (simp add: m)
  have "real (length (filter success (rows df))) / real (length (rows df)) \<le> 1"
    using pos le by (simp add: divide_le_eq_1)
  then have "real (length (filter success (rows df))) / real (length (rows df)) * 100 \<le> 1 * 100"
    by (intro mult_right_mono) simp_all
  then have r1: "success_rate m \<le> 100" unfolding m by simp
  have q: "Min (set ds) \<le> lerp_at (sort ds) (real (length ds - 1) * (95 / 100))"
    "lerp_at (sort ds) (real (length ds - 1) * (95 / 100)) \<le>
       lerp_at (sort ds) (real (length ds - 1) * (99 / 100))"
    "lerp_at (sort ds) (real (length ds - 1) * (99 / 100)) \<le> Max (set ds)"
    using quantile_facts[OF ne, of "95 / 100" "99 / 100"] by simp_all
  have "\<exists>lo avg hi p95 p99.
               min_latency m = Some lo \<and> avg_latency m = Some avg \<and> max_latency m = Some hi \<and>
               p95_latency m = Some p95 \<and> p99_latency m = Some p99 \<and>
               lo \<le> avg \<and> avg \<le> hi \<and> lo \<le> p95 \<and> p95 \<le> p99 \<and> p99 \<le> hi"
    using mean_between[OF ne] q by (simp add: m series_of_values(1-4)[OF ne])
  with r0 r1 show ?thesis by blast
qed

text \<open>Scenario A satisfies the hypothesis, so its metrics are ordered.\<close>

theorem metric_ordering_witness:
  "\<exists>m. calculate_detailed_metrics NotFound scenario_A (Some ''go'') = Inr (Some m) \<and>
       filter success (rows scenario_A) \<noteq> [] \<and>
       0 \<le> success_rate m \<and> success_rate m \<le> 100 \<and>
       (\<exists>lo avg hi p95 p99.
               min_latency m = Some lo \<and> avg_latency m = Some avg \<and> max_latency m = Some hi \<and>
               p95_latency m = Some p95 \<and> p99_latency m = Some p99 \<and>
               lo \<le> avg \<and> avg \<le> hi \<and> lo \<le> p95 \<and> p95 \<le> p99 \<and> p99 \<le> hi)"
proof -
  obtain m where m: "calculate_detailed_metrics NotFound scenario_A (Some ''go'') = Inr (Some m)"
    using scenario_A_metrics by blast
  have s: "filter success (rows scenario_A) \<noteq> []"
    by (simp add: scenario_A_def failed_row_def)
  from metric_ordering[OF m] m s show ?thesis by blast
qed

section \<open>The cross-run aggregator\<close>















section \<open>Resolving the result files of a run\<close>

lemma sdk_names:
  "replace (stem ''operational-java.jsonl'') ''-java'' [] = ''operational''"
  "replace (stem ''enterprise-java.jsonl'') ''-java'' [] = ''enterprise''"
  "replace (stem ''operational-go.jsonl'') ''-go'' [] = ''operational''"
  "replace (stem ''enterprise-go.jsonl'') ''-go'' [] = ''enterprise''"
  "replace ''operational.jsonl'' ''.jsonl'' [] = ''operational''"
  "replace ''enterprise.jsonl'' ''.jsonl'' [] = ''enterprise''"
  by (simp_all add: stem_def)

lemma display_names:
  "title ''operational'' = ''Operational''"
  "title ''enterprise'' = ''Enterprise''"
  by code_simp+


lemma detect_java_go:
  "detect_language_files raw_dir patterns =
     (let entry = (\<lambda>lang sdk shown file.
            if present raw_dir file
            then [(sdk, \<lparr>path = file, sdk_type = sdk, file_language = lang,
                         display_name = shown\<rparr>)]
            else []);
          java = entry ''java'' ''operational'' ''Operational SDK'' ''operational-java.jsonl'' @
                 entry ''java'' ''enterprise'' ''Enterprise SDK'' ''enterprise-java.jsonl'';
          go = entry ''go'' ''operational'' ''Operational SDK'' ''operational-go.jsonl'' @
               entry ''go'' ''enterprise'' ''Enterprise SDK'' ''enterprise-go.jsonl''
      in if java \<noteq> [] then (java, Some ''java'')
         else if go \<noteq> [] then (go, Some ''go'')
         else ([], None))"
  by (simp add: patterns_def Let_def sdk_names display_names)

text \<open>
  Claim C8, as the code has it. Without a \<open>raw\<close> directory the resolver returns the
  empty mapping and no label. Otherwise it takes the first of the conventions java and
  go that has at least one non-empty file, returns the files of that convention that are
  present (one or both), keyed \<open>operational\<close> and \<open>enterprise\<close>, and labels them with
  the language; when neither has a file it returns the non-empty legacy files, possibly
  none, with the label \<open>unknown\<close>. A missing or empty file is skipped, never an error.
\<close>

theorem result_set_resolution:
  "(raw d = None \<longrightarrow> auto_detect_result_files d = ([], None)) \<and>
   (\<forall>raw_dir. raw d = Some raw_dir \<longrightarrow>
      (let entry = (\<lambda>lang sdk shown file.
             if present raw_dir file
             then [(sdk, \<lparr>path = file, sdk_type = sdk, file_language = lang,
                          display_name = shown\<rparr>)]
             else []);
           java = entry ''java'' ''operational'' ''Operational SDK'' ''operational-java.jsonl'' @
                  entry ''java'' ''enterprise'' ''Enterprise SDK'' ''enterprise-java.jsonl'';
           go = entry ''go'' ''operational'' ''Operational SDK'' ''operational-go.jsonl'' @
                entry ''go'' ''enterprise'' ''Enterprise SDK'' ''enterprise-go.jsonl'';
           legacy = entry ''unknown'' ''operational'' ''Operational SDK'' ''operational.jsonl'' @
                    entry ''unknown'' ''enterprise'' ''Enterprise SDK'' ''enterprise.jsonl''
       in auto_detect_result_files d =
            (if java \<noteq> [] then (java, Some ''java'')
             else if go \<noteq> [] then (go, Some ''go'')
             else (legacy, Some ''unknown''))))"
proof (intro conjI allI impI)
  assume "raw d = None"
  then show "auto_detect_result_files d = ([], None)"
    by (simp add: auto_detect_result_files_def)
next
  fix raw_dir
  assume r: "raw d = Some raw_dir"
  show "let entry = (\<lambda>lang sdk shown file.
             if present raw_dir file
             then [(sdk, \<lparr>path = file, sdk_type = sdk, file_language = lang,
                          display_name = shown\<rparr>)]
             else []);
           java = entry ''java'' ''operational'' ''Operational SDK'' ''operational-java.jsonl'' @
                  entry ''java'' ''enterprise'' ''Enterprise SDK'' ''enterprise-java.jsonl'';
           go = entry ''go'' ''operational'' ''Operational SDK'' ''operational-go.jsonl'' @
                entry ''go'' ''enterprise'' ''Enterprise SDK'' ''enterprise-go.jsonl'';
           legacy = entry ''unknown'' ''operational'' ''Operational SDK'' ''operational.jsonl'' @
                    entry ''unknown'' ''enterprise'' ''Enterprise SDK'' ''enterprise.jsonl''
       in auto_detect_result_files d =
            (if java \<noteq> [] then (java, Some ''java'')
             else if go \<noteq> [] then (go, Some ''go'')
             else (legacy, Some ''unknown''))"
    unfolding auto_detect_result_files_def r option.case detect_java_go
    by (simp add: Let_def legacy_patterns_def sdk_names display_names)
qed


text \<open>
  A run without \<open>raw\<close> directory, and a run with both go files (and a legacy file that
  is not looked at).
\<close>

theorem result_set_resolution_witness:
  "raw no_raw_run = None \<and> auto_detect_result_files no_raw_run = ([], None) \<and>
   raw go_run = Some go_raw \<and>
   auto_detect_result_files go_run =
     ([(''operational'', \<lparr>path = ''operational-go.jsonl'', sdk_type = ''operational'',
          file_language = ''go'', display_name = ''Operational SDK''\<rparr>),
       (''enterprise'', \<lparr>path = ''enterprise-go.jsonl'', sdk_type = ''enterprise'',
          file_language = ''go'', display_name = ''Enterprise SDK''\<rparr>)],
      Some ''go'')"
proof -
  have 1: "raw no_raw_run = None" by (simp add: no_raw_run_def)
  have 2: "raw go_run = Some go_raw" by (simp add: go_run_def)
  have p: "\<not> present go_raw ''operational-java.jsonl''" "\<not> present go_raw ''enterprise-java.jsonl''"
    "present go_raw ''operational-go.jsonl''" "present go_raw ''enterprise-go.jsonl''"
    by (simp_all add: present_def go_raw_def data_file_def)
  have 3: "auto_detect_result_files no_raw_run = ([], None)"
    using result_set_resolution[of no_raw_run] 1 by blast
  have "auto_detect_result_files go_run =
     ([(''operational'', \<lparr>path = ''operational-go.jsonl'', sdk_type = ''operational'',
          file_language = ''go'', display_name = ''Operational SDK''\<rparr>),
       (''enterprise'', \<lparr>path = ''enterprise-go.jsonl'', sdk_type = ''enterprise'',
          file_language = ''go'', display_name = ''Enterprise SDK''\<rparr>)],
      Some ''go'')"
    using result_set_resolution[of go_run] 2 p by (simp add: Let_def)
  with 1 2 3 show ?thesis by blast
qed

text \<open>
  Claim C8 as the specification states it fails twice. A run with one java file and both
  go files: the first fully-present set is the go one, the code returns the single java
  file. A run whose \<open>raw\<close> directory holds no recognised file: the label is
  \<open>unknown\<close>, not absent.
\<close>

theorem result_set_resolution_counterexample:
  "\<not> present partial_java_raw ''enterprise-java.jsonl'' \<and>
   present partial_java_raw ''operational-go.jsonl'' \<and>
   present partial_java_raw ''enterprise-go.jsonl'' \<and>
   auto_detect_result_files partial_java_run =
     ([(''operational'', \<lparr>path = ''operational-java.jsonl'', sdk_type = ''operational'',
          file_language = ''java'', display_name = ''Operational SDK''\<rparr>)],
      Some ''java'') \<and>
   auto_detect_result_files empty_raw_run = ([], Some ''unknown'')"
  by (simp add: auto_detect_result_files_def detect_java_go partial_java_run_def
        partial_java_raw_def empty_raw_run_def present_def data_file_def Let_def
        legacy_patterns_def)

section \<open>Runs without a successful record in the aggregation\<close>












end
